theory Spec2Isabelle
  imports Complex_Main "HOL-Library.Sublist" "HOL-Library.AList"
begin

section \<open>Tradelog: the analytics and goal computations of the client\<close>

text \<open>
  The theory embeds the computations of two pages of the client: \<^verbatim>\<open>Analytics\<close>
  (\<^verbatim>\<open>calculateLossMetrics\<close>, the percentage of losing trades and the "Loss Insights" card)
  and \<^verbatim>\<open>TradingPlan\<close> (\<^verbatim>\<open>calculateProgress\<close>, \<^verbatim>\<open>getGoalStatus\<close>).

  Conventions of the embedding:
  \<^item> a JavaScript number that arrives in a JSON payload is a rational (\<open>rat\<close>); rounding of
    binary floating point is not modelled, and the negative zero is not distinguished
    from zero;
  \<^item> where the code divides, the result is a \<open>jsnum\<close>, which adds the two infinities and
    NaN, since a JavaScript division by zero returns one of them and does not throw;
  \<^item> a field that the API sends as \<^verbatim>\<open>null\<close> is an \<open>option\<close>;
  \<^item> a timestamp field is represented by the time value (milliseconds since the epoch)
    that \<^verbatim>\<open>new Date(field)\<close> yields;
  \<^item> an array that the code sorts in place lives in a store of arrays, so that the
    aliasing between \<^verbatim>\<open>trades\<close>, \<^verbatim>\<open>closedTrades\<close> and \<^verbatim>\<open>losingTrades\<close> is explicit; the
    state of \<^verbatim>\<open>calculateLossMetrics\<close> holds this store and what the function writes on
    objects that it did not create;
  \<^item> a render that throws returns the error.
\<close>

subsection \<open>JavaScript numbers\<close>

datatype jsnum = Fin rat | PosInf | NegInf | NaN

text \<open>The operator \<^verbatim>\<open>/\<close> on numbers.\<close>

fun js_div :: "jsnum \<Rightarrow> jsnum \<Rightarrow> jsnum" where
  "js_div NaN _ = NaN"
| "js_div _ NaN = NaN"
| "js_div (Fin a) (Fin b) =
     (if b = 0 then (if a = 0 then NaN else if 0 < a then PosInf else NegInf)
      else Fin (a / b))"
| "js_div (Fin a) PosInf = Fin 0"
| "js_div (Fin a) NegInf = Fin 0"
| "js_div PosInf (Fin b) = (if 0 \<le> b then PosInf else NegInf)"
| "js_div NegInf (Fin b) = (if 0 \<le> b then NegInf else PosInf)"
| "js_div PosInf PosInf = NaN"
| "js_div PosInf NegInf = NaN"
| "js_div NegInf PosInf = NaN"
| "js_div NegInf NegInf = NaN"

text \<open>The operator \<^verbatim>\<open>*\<close> on numbers.\<close>

fun js_mul :: "jsnum \<Rightarrow> jsnum \<Rightarrow> jsnum" where
  "js_mul NaN _ = NaN"
| "js_mul _ NaN = NaN"
| "js_mul (Fin a) (Fin b) = Fin (a * b)"
| "js_mul (Fin a) PosInf = (if a = 0 then NaN else if 0 < a then PosInf else NegInf)"
| "js_mul (Fin a) NegInf = (if a = 0 then NaN else if 0 < a then NegInf else PosInf)"
| "js_mul PosInf (Fin b) = (if b = 0 then NaN else if 0 < b then PosInf else NegInf)"
| "js_mul NegInf (Fin b) = (if b = 0 then NaN else if 0 < b then NegInf else PosInf)"
| "js_mul PosInf PosInf = PosInf"
| "js_mul PosInf NegInf = NegInf"
| "js_mul NegInf PosInf = NegInf"
| "js_mul NegInf NegInf = PosInf"

text \<open>The comparison \<^verbatim>\<open><\<close> on numbers: false as soon as one side is NaN.\<close>

fun js_lt :: "jsnum \<Rightarrow> jsnum \<Rightarrow> bool" where
  "js_lt NaN _ = False"
| "js_lt _ NaN = False"
| "js_lt (Fin a) (Fin b) = (a < b)"
| "js_lt (Fin a) PosInf = True"
| "js_lt (Fin a) NegInf = False"
| "js_lt PosInf _ = False"
| "js_lt NegInf (Fin b) = True"
| "js_lt NegInf PosInf = True"
| "js_lt NegInf NegInf = False"

text \<open>The comparisons \<^verbatim>\<open><=\<close> and \<^verbatim>\<open>>=\<close>: again false as soon as one side is NaN.\<close>

fun js_le :: "jsnum \<Rightarrow> jsnum \<Rightarrow> bool" where
  "js_le NaN _ = False"
| "js_le _ NaN = False"
| "js_le x y = (\<not> js_lt y x)"

definition js_ge :: "jsnum \<Rightarrow> jsnum \<Rightarrow> bool" where
  "js_ge x y = js_le y x"

text \<open>\<^verbatim>\<open>Math.min\<close> of two numbers: NaN as soon as one argument is NaN.\<close>

fun Math_min :: "jsnum \<Rightarrow> jsnum \<Rightarrow> jsnum" where
  "Math_min NaN _ = NaN"
| "Math_min _ NaN = NaN"
| "Math_min x y = (if js_lt y x then y else x)"

text \<open>\<^verbatim>\<open>Math.ceil\<close>: the infinities and NaN are returned unchanged.\<close>

fun Math_ceil :: "jsnum \<Rightarrow> jsnum" where
  "Math_ceil (Fin a) = Fin (of_int \<lceil>a\<rceil>)"
| "Math_ceil x = x"

text \<open>
  A nullable number in a numeric context: \<^verbatim>\<open>null\<close> converts to 0, so
  \<^verbatim>\<open>null < 0\<close> is false and \<^verbatim>\<open>x + null\<close> is \<^verbatim>\<open>x\<close>.
\<close>

definition ToNumber :: "rat option \<Rightarrow> rat" where
  "ToNumber v = (case v of None \<Rightarrow> 0 | Some x \<Rightarrow> x)"

subsection \<open>The records of the API\<close>

text \<open>
  Of a trade, the fields that the analytics read. \<open>exit_time\<close> is the time value of
  \<^verbatim>\<open>new Date(t.exit_time)\<close>: the API sends ISO timestamps, and \<^verbatim>\<open>null\<close> gives 0. A string
  that is not a date (whose time value is NaN, on which the order of \<^verbatim>\<open>sort\<close> is left to
  the implementation) is outside the model.
\<close>

record trade =
  trade_id :: nat
  currency_pair :: string
  exit_price :: "rat option"
  exit_time :: int
  profit_loss :: "rat option"

record stats =
  total_trades :: nat
  win_rate :: rat
  total_profit_loss :: rat
  average_win :: rat
  average_loss :: rat
  best_trade :: rat
  worst_trade :: rat

text \<open>
  \<open>target_date\<close> is the time value of \<^verbatim>\<open>new Date(goal.target_date)\<close>: \<open>None\<close> when the
  string is not a date (the time value of an invalid date is NaN).
\<close>

record goal =
  goal_id :: nat
  target_amount :: rat
  target_date :: "int option"
  completed :: bool

subsection \<open>Arrays in a store\<close>

text \<open>
  The store is the list of the arrays allocated so far; an array reference is an index
  into it. \<^verbatim>\<open>filter\<close> and \<^verbatim>\<open>slice\<close> allocate a new array and leave their receiver alone;
  \<^verbatim>\<open>sort\<close> sorts its receiver in place and returns the same reference. The comparators
  of the code are differences of a numeric key, and \<^verbatim>\<open>Array.prototype.sort\<close> is stable, so
  a sort is the stable sort by that key.
\<close>

type_synonym array_ref = nat
type_synonym store = "trade list list"

definition Array_filter :: "(trade \<Rightarrow> bool) \<Rightarrow> array_ref \<Rightarrow> store \<Rightarrow> array_ref \<times> store" where
  "Array_filter p a h = (length h, h @ [filter p (h ! a)])"

definition Array_sort :: "(trade \<Rightarrow> int) \<Rightarrow> array_ref \<Rightarrow> store \<Rightarrow> array_ref \<times> store" where
  "Array_sort key a h = (a, h[a := sort_key key (h ! a)])"

definition Array_slice :: "nat \<Rightarrow> nat \<Rightarrow> array_ref \<Rightarrow> store \<Rightarrow> array_ref \<times> store" where
  "Array_slice i j a h = (length h, h @ [take (j - i) (drop i (h ! a))])"

subsection \<open>Plain objects used as dictionaries\<close>

text \<open>
  \<^verbatim>\<open>lossByPair\<close> is a plain object \<^verbatim>\<open>{}\<close>. Its own properties are an association list
  in insertion order. A read \<^verbatim>\<open>lossByPair[k]\<close> of a key that is not an own property
  falls through to \<^verbatim>\<open>Object.prototype\<close>, whose properties are all truthy (functions, and
  the prototype object itself for \<^verbatim>\<open>__proto__\<close>).
\<close>

definition Object_prototype_keys :: "string list" where
  "Object_prototype_keys =
     [''constructor'', ''__proto__'', ''hasOwnProperty'', ''isPrototypeOf'',
      ''propertyIsEnumerable'', ''toLocaleString'', ''toString'', ''valueOf'',
      ''__defineGetter__'', ''__defineSetter__'', ''__lookupGetter__'', ''__lookupSetter__'']"

text \<open>
  \<^verbatim>\<open>Object.entries\<close> lists the own properties: first the keys that are array indices
  (canonical decimal numerals below \<open>2^32 - 1 = 4294967295\<close>) in ascending numeric order, then the
  other string keys in insertion order.
\<close>

definition is_digit :: "char \<Rightarrow> bool" where
  "is_digit c = (48 \<le> (of_char c :: int) \<and> (of_char c :: int) \<le> 57)"

definition numeric_value :: "string \<Rightarrow> int" where
  "numeric_value s = foldl (\<lambda>n c. 10 * n + (of_char c - 48)) 0 s"

definition is_array_index :: "string \<Rightarrow> bool" where
  "is_array_index s =
     (s \<noteq> [] \<and> list_all is_digit s \<and> (hd s \<noteq> CHR ''0'' \<or> s = ''0'')
      \<and> numeric_value s < 4294967295)"

definition Object_entries :: "(string \<times> 'v) list \<Rightarrow> (string \<times> 'v) list" where
  "Object_entries obj =
     sort_key (\<lambda>kv. numeric_value (fst kv)) (filter (\<lambda>kv. is_array_index (fst kv)) obj)
     @ filter (\<lambda>kv. \<not> is_array_index (fst kv)) obj"

subsection \<open>calculateLossMetrics\<close>

record pair_data =
  count :: nat
  total' :: rat

record loss_entry = pair_data +
  pair :: string

record loss_metrics =
  totalLosses :: nat
  longestStreak :: nat
  lossByPair :: "loss_entry list"
  recentLosses :: "trade list"

text \<open>The two filter predicates.\<close>

definition is_closed :: "trade \<Rightarrow> bool" where
  "is_closed t = (exit_price t \<noteq> None)"

definition is_loss :: "trade \<Rightarrow> bool" where
  "is_loss t = (ToNumber (profit_loss t) < 0)"

text \<open>
  The body of the first \<^verbatim>\<open>forEach\<close>, on the pair \<open>(maxStreak, currentStreak)\<close> of the two
  counters.
\<close>

definition streak_step :: "trade \<Rightarrow> nat \<times> nat \<Rightarrow> nat \<times> nat" where
  "streak_step t s =
     (case s of (maxStreak, currentStreak) \<Rightarrow>
        if is_loss t then (max maxStreak (currentStreak + 1), currentStreak + 1)
        else (maxStreak, 0))"

text \<open>
  The body of the second \<^verbatim>\<open>forEach\<close>. When the pair is a key of \<^verbatim>\<open>Object.prototype\<close> the
  read is truthy, no own property is created, and the two updates write to the
  inherited object: \<^verbatim>\<open>lossByPair\<close> keeps its own properties. (What they write there is
  NaN, which a later read \<^verbatim>\<open>lossByPair[k]\<close> treats as it treats a missing property.)
\<close>

definition group_step :: "trade \<Rightarrow> (string \<times> pair_data) list \<Rightarrow> (string \<times> pair_data) list" where
  "group_step t obj =
     (let k = currency_pair t in
      if map_of obj k = None \<and> k \<in> set Object_prototype_keys then obj
      else
        let obj1 = (if map_of obj k = None
                    then AList.update k \<lparr>count = 0, total' = 0\<rparr> obj else obj);
            obj2 = AList.map_entry k (\<lambda>d. d\<lparr>count := count d + 1\<rparr>) obj1
        in AList.map_entry k (\<lambda>d. d\<lparr>total' := total' d + ToNumber (profit_loss t)\<rparr>) obj2)"

definition to_entry :: "string \<times> pair_data \<Rightarrow> loss_entry" where
  "to_entry kv = \<lparr>count = count (snd kv), total' = total' (snd kv), pair = fst kv\<rparr>"

text \<open>
  The state that the function can touch: the arrays, and the objects reached through
  \<^verbatim>\<open>Object.prototype\<close>. \<open>tainted\<close> is the set of the keys \<open>k\<close> of \<^verbatim>\<open>Object.prototype\<close> whose
  value (the prototype object itself for \<^verbatim>\<open>__proto__\<close>, a built-in function for the
  others) has received the properties \<^verbatim>\<open>count\<close> and \<^verbatim>\<open>total\<close>. Both hold NaN there:
  \<^verbatim>\<open>count++\<close> and \<^verbatim>\<open>total += x\<close> start from \<^verbatim>\<open>undefined\<close> or from NaN.
\<close>

record heap =
  arrays :: store
  tainted :: "string set"

text \<open>
  The whole body of the second \<^verbatim>\<open>forEach\<close>, on the object \<^verbatim>\<open>lossByPair\<close> and the tainted
  keys: \<open>group_step\<close> for the own properties, and the two writes of lines 56 and 57
  on the inherited object when the pair is a key of \<^verbatim>\<open>Object.prototype\<close>.
\<close>

definition forEach_step ::
  "trade \<Rightarrow> (string \<times> pair_data) list \<times> string set \<Rightarrow> (string \<times> pair_data) list \<times> string set"
where
  "forEach_step t s =
     (case s of (obj, w) \<Rightarrow>
        (group_step t obj,
         if map_of obj (currency_pair t) = None \<and> currency_pair t \<in> set Object_prototype_keys
         then insert (currency_pair t) w else w))"

text \<open>
  The function, run on the state \<open>g0\<close> with the state variable \<^verbatim>\<open>trades\<close> referring to
  the array \<open>trades\<close>. It returns its result and the state it leaves behind.
\<close>

definition calculateLossMetrics_st :: "array_ref \<Rightarrow> heap \<Rightarrow> loss_metrics \<times> heap" where
  "calculateLossMetrics_st trades g0 =
     (let h0 = arrays g0;
          (closedTrades, h1) = Array_filter is_closed trades h0;
          (losingTrades, h2) = Array_filter is_loss closedTrades h1;
          (sortedClosed, h3) = Array_sort exit_time closedTrades h2;
          (maxStreak, currentStreak) = fold streak_step (h3 ! sortedClosed) (0, 0);
          (byPair, written) = fold forEach_step (h3 ! losingTrades) ([], tainted g0);
          n = length (h3 ! losingTrades);
          entries = take 5 (sort_key total' (map to_entry (Object_entries byPair)));
          (sortedLosing, h4) = Array_sort (\<lambda>t. - exit_time t) losingTrades h3;
          (recent, h5) = Array_slice 0 5 sortedLosing h4
      in (\<lparr>totalLosses = n, longestStreak = maxStreak, lossByPair = entries,
           recentLosses = h5 ! recent\<rparr>,
          \<lparr>arrays = h5, tainted = written\<rparr>))"

text \<open>
  The result for a trade list: the run on a state that holds this one array, with
  nothing written on the inherited objects yet.
\<close>

definition calculateLossMetrics :: "trade list \<Rightarrow> loss_metrics" where
  "calculateLossMetrics trades =
     fst (calculateLossMetrics_st 0 \<lparr>arrays = [trades], tainted = {}\<rparr>)"

text \<open>
  The words of the specification for the streak: a run of consecutive losing trades of
  \<open>xs\<close> is a contiguous part of \<open>xs\<close> all of whose trades are losses.
\<close>

definition is_losing_run :: "trade list \<Rightarrow> trade list \<Rightarrow> bool" where
  "is_losing_run ys xs = (sublist ys xs \<and> list_all is_loss ys)"

text \<open>
  The words of the specification for the attribution: the group of a pair \<open>k\<close> among the
  trades \<open>ts\<close> has as \<open>count\<close> the number of trades of \<open>ts\<close> on \<open>k\<close>, and as \<open>total\<close> the
  sum of their \<open>profit_loss\<close>.
\<close>

definition group_count :: "trade list \<Rightarrow> string \<Rightarrow> nat" where
  "group_count ts k = length (filter (\<lambda>t. currency_pair t = k) ts)"

definition group_total :: "trade list \<Rightarrow> string \<Rightarrow> rat" where
  "group_total ts k =
     sum_list (map (\<lambda>t. ToNumber (profit_loss t)) (filter (\<lambda>t. currency_pair t = k) ts))"

subsection \<open>The "Losses Analysis" tab\<close>

text \<open>
  The figure under "Total Losses":
  \<^verbatim>\<open>(lossMetrics.totalLosses / stats.total_trades) * 100\<close>.
\<close>

definition loss_percentage :: "stats \<Rightarrow> loss_metrics \<Rightarrow> jsnum" where
  "loss_percentage s m =
     js_mul (js_div (Fin (of_nat (totalLosses m))) (Fin (of_nat (total_trades s)))) (Fin 100)"

text \<open>
  The lines of the "Loss Insights" card, in the order of the markup. A line
  \<^verbatim>\<open>{cond && <div>...</div>}\<close> is rendered when \<open>cond\<close> holds and is absent otherwise.
\<close>

datatype insight = WorstTrade rat | StreakWarning nat | RiskSizing | WorstPair string

definition loss_insights :: "stats \<Rightarrow> loss_metrics \<Rightarrow> insight list" where
  "loss_insights s m =
     [WorstTrade \<bar>worst_trade s\<bar>]
     @ (if longestStreak m > 2 then [StreakWarning (longestStreak m)] else [])
     @ (if average_loss s < - 50 then [RiskSizing] else [])
     @ (if length (lossByPair m) > 0 then [WorstPair (pair (lossByPair m ! 0))] else [])"

text \<open>
  What the component shows, as far as the claims go: the loading screen, or of the page
  the content of the "Losses Analysis" tab, which is the analysis (of which the model
  keeps the percentage and the insights) or the "Perfect Record!" card.
\<close>

datatype error = TypeError

datatype view = Loading | PerfectRecord | LossAnalysis jsnum "insight list"

text \<open>
  The gate of the tab, \<^verbatim>\<open>lossMetrics && lossMetrics.totalLosses > 0\<close>, for metrics that
  are not \<^verbatim>\<open>null\<close>: an object is truthy, so the test is that of \<open>totalLosses\<close>.
\<close>

definition losses_tab :: "stats \<Rightarrow> loss_metrics \<Rightarrow> view" where
  "losses_tab s lossMetrics =
     (if totalLosses lossMetrics > 0
      then LossAnalysis (loss_percentage s lossMetrics) (loss_insights s lossMetrics)
      else PerfectRecord)"

text \<open>
  The render of \<^verbatim>\<open>Analytics\<close>, from the state variables \<^verbatim>\<open>loading\<close>, \<^verbatim>\<open>stats\<close> and
  \<^verbatim>\<open>trades\<close>. While loading it returns the loading screen. After that,
  \<^verbatim>\<open>stats.total_trades\<close> (line 83) throws a TypeError when \<^verbatim>\<open>stats\<close> is \<^verbatim>\<open>null\<close>, which
  is the state after a failed fetch. So
  \<^verbatim>\<open>lossMetrics = stats ? calculateLossMetrics() : null\<close> (line 97) is reached with loaded
  statistics only, and \<^verbatim>\<open>lossMetrics\<close> is the metrics record when the tab is rendered.
\<close>

definition Analytics :: "bool \<Rightarrow> stats option \<Rightarrow> trade list \<Rightarrow> error + view" where
  "Analytics loading st trades =
     (if loading then Inr Loading
      else case st of
        None \<Rightarrow> Inl TypeError
      | Some s \<Rightarrow>
          (let lossMetrics = calculateLossMetrics trades
           in Inr (losses_tab s lossMetrics)))"

text \<open>The insight lines that a view shows.\<close>

fun shown_insights :: "view \<Rightarrow> insight list" where
  "shown_insights Loading = []"
| "shown_insights PerfectRecord = []"
| "shown_insights (LossAnalysis p ins) = ins"

subsection \<open>TradingPlan: calculateProgress and getGoalStatus\<close>

text \<open>\<open>st\<close> is the state variable \<^verbatim>\<open>stats\<close>, \<^verbatim>\<open>null\<close> until the statistics are loaded.\<close>

definition calculateProgress :: "stats option \<Rightarrow> goal \<Rightarrow> jsnum" where
  "calculateProgress st g =
     (case st of
        None \<Rightarrow> Fin 0
      | Some s \<Rightarrow>
          Math_min
            (js_mul (js_div (Fin (total_profit_loss s)) (Fin (target_amount g))) (Fin 100))
            (Fin 100))"

text \<open>
  \<open>now\<close> is the time value of \<^verbatim>\<open>new Date()\<close>. The difference of two dates is the
  difference of their time values, NaN when the target date is invalid.
\<close>

definition daysLeft :: "int \<Rightarrow> goal \<Rightarrow> jsnum" where
  "daysLeft now g =
     Math_ceil
       (js_div (case target_date g of None \<Rightarrow> NaN | Some t \<Rightarrow> Fin (of_int (t - now)))
          (Fin (1000 * 60 * 60 * 24)))"

definition getGoalStatus :: "stats option \<Rightarrow> int \<Rightarrow> goal \<Rightarrow> string" where
  "getGoalStatus st now g =
     (let progress = calculateProgress st g;
          days = daysLeft now g
      in if completed g then ''completed''
         else if js_ge progress (Fin 100) then ''achieved''
         else if js_lt days (Fin 0) then ''expired''
         else if js_le days (Fin 7) then ''urgent''
         else ''active'')"

subsection \<open>Sample inputs\<close>

definition sample_trade :: "nat \<Rightarrow> string \<Rightarrow> int \<Rightarrow> rat \<Rightarrow> trade" where
  "sample_trade i p t pl =
     \<lparr>trade_id = i, currency_pair = p, exit_price = Some 1, exit_time = t,
      profit_loss = Some pl\<rparr>"

text \<open>The four closed trades of the streak scenario, fetched out of chronological order.\<close>

definition streak_scenario :: "trade list" where
  "streak_scenario =
     [sample_trade 3 ''GBPUSD'' 300 5, sample_trade 1 ''EURUSD'' 100 (- 10),
      sample_trade 4 ''EURUSD'' 400 (- 30), sample_trade 2 ''USDJPY'' 200 (- 20)]"

text \<open>Trades on seven pairs, one of them a key of \<^verbatim>\<open>Object.prototype\<close>, with a winner.\<close>

definition attribution_sample :: "trade list" where
  "attribution_sample =
     [sample_trade 1 ''EURUSD'' 100 (- 10), sample_trade 2 ''USDJPY'' 200 (- 20),
      sample_trade 3 ''GBPUSD'' 300 (- 5), sample_trade 4 ''EURUSD'' 400 (- 30),
      sample_trade 5 ''AUDUSD'' 500 (- 7), sample_trade 6 ''USDCAD'' 600 (- 50),
      sample_trade 7 ''NZDUSD'' 700 (- 1), sample_trade 8 ''toString'' 800 (- 3),
      sample_trade 9 ''GBPUSD'' 900 15]"

text \<open>One losing trade on a pair named as a key of \<^verbatim>\<open>Object.prototype\<close>: a function.\<close>

definition constructor_sample :: "trade list" where
  "constructor_sample = [sample_trade 1 ''constructor'' 100 (- 7)]"

text \<open>One losing trade on the pair \<^verbatim>\<open>__proto__\<close>, whose value is the prototype itself.\<close>

definition proto_sample :: "trade list" where
  "proto_sample = [sample_trade 1 ''__proto__'' 100 (- 7)]"

text \<open>One losing trade.\<close>

definition single_loss_sample :: "trade list" where
  "single_loss_sample = [sample_trade 1 ''EURUSD'' 100 (- 10)]"

text \<open>A winning trade and an open position: no losing trade.\<close>

definition no_loss_sample :: "trade list" where
  "no_loss_sample =
     [sample_trade 3 ''GBPUSD'' 300 5,
      \<lparr>trade_id = 5, currency_pair = ''EURUSD'', exit_price = None, exit_time = 0,
       profit_loss = None\<rparr>]"

text \<open>Statistics with a given number of trades, total result, average loss and worst trade.\<close>

definition sample_stats :: "nat \<Rightarrow> rat \<Rightarrow> rat \<Rightarrow> rat \<Rightarrow> stats" where
  "sample_stats n pl avg_loss worst =
     \<lparr>total_trades = n, win_rate = 50, total_profit_loss = pl, average_win = 25,
      average_loss = avg_loss, best_trade = 40, worst_trade = worst\<rparr>"

definition sample_goal :: "rat \<Rightarrow> int option \<Rightarrow> bool \<Rightarrow> goal" where
  "sample_goal amount date done =
     \<lparr>goal_id = 1, target_amount = amount, target_date = date, completed = done\<rparr>"

section \<open>Properties\<close>

subsection \<open>What calculateLossMetrics computes, and what it leaves in the state\<close>

lemma fst_fold_forEach_step:
  "fst (fold forEach_step ts (obj, w)) = fold group_step ts obj"
  by (induction ts arbitrary: obj w) (simp_all add: forEach_step_def)

lemma calculateLossMetrics_st_eq:
  assumes "a < length (arrays g)"
  shows "calculateLossMetrics_st a g =
     (let closed = filter is_closed (arrays g ! a); losing = filter is_loss closed in
      (\<lparr>totalLosses = length losing,
        longestStreak = fst (fold streak_step (sort_key exit_time closed) (0, 0)),
        lossByPair =
          take 5 (sort_key total' (map to_entry (Object_entries (fold group_step losing [])))),
        recentLosses = take 5 (sort_key (\<lambda>t. - exit_time t) losing)\<rparr>,
       \<lparr>arrays = arrays g @ [sort_key exit_time closed, sort_key (\<lambda>t. - exit_time t) losing,
            take 5 (sort_key (\<lambda>t. - exit_time t) losing)],
        tainted = snd (fold forEach_step losing ([], tainted g))\<rparr>))"
  using assms
  by (simp add: calculateLossMetrics_st_def Array_filter_def Array_sort_def Array_slice_def
      Let_def split_beta nth_append list_update_append fst_fold_forEach_step)

lemma calculateLossMetrics_eq:
  "calculateLossMetrics trades =
     \<lparr>totalLosses = length (filter is_loss (filter is_closed trades)),
      longestStreak = fst (fold streak_step (sort_key exit_time (filter is_closed trades)) (0, 0)),
      lossByPair =
        take 5 (sort_key total' (map to_entry (Object_entries
          (fold group_step (filter is_loss (filter is_closed trades)) [])))),
      recentLosses = take 5 (sort_key (\<lambda>t. - exit_time t) (filter is_loss (filter is_closed trades)))\<rparr>"
  by (simp add: calculateLossMetrics_def calculateLossMetrics_st_eq Let_def)

text \<open>
  The result is that for the contents of the array \<^verbatim>\<open>trades\<close> whatever else the state
  holds, the arrays that existed before the call are left as they were (the two
  in-place sorts hit arrays that the call allocated itself), and a second evaluation on
  the state that the first one left returns the same result.
\<close>

lemma calculateLossMetrics_st_result:
  "a < length (arrays g) \<Longrightarrow>
     fst (calculateLossMetrics_st a g) = calculateLossMetrics (arrays g ! a)
     \<and> take (length (arrays g)) (arrays (snd (calculateLossMetrics_st a g))) = arrays g
     \<and> fst (calculateLossMetrics_st a (snd (calculateLossMetrics_st a g)))
         = fst (calculateLossMetrics_st a g)"
  by (simp add: calculateLossMetrics_st_eq calculateLossMetrics_eq Let_def nth_append)

subsection \<open>The losing streak\<close>

text \<open>
  After the scan of \<open>xs\<close>, \<open>currentStreak\<close> is the length of the longest run of losses
  that ends \<open>xs\<close>, and \<open>maxStreak\<close> the length of the longest run of losses in \<open>xs\<close>.
\<close>

lemma streak_invariant:
  "fold streak_step xs (0, 0) = (m, c) \<Longrightarrow>
     (\<exists>ys. suffix ys xs \<and> list_all is_loss ys \<and> length ys = c) \<and>
     (\<forall>ys. suffix ys xs \<and> list_all is_loss ys \<longrightarrow> length ys \<le> c) \<and>
     (\<exists>ys. sublist ys xs \<and> list_all is_loss ys \<and> length ys = m) \<and>
     (\<forall>ys. sublist ys xs \<and> list_all is_loss ys \<longrightarrow> length ys \<le> m)"
proof (induction xs arbitrary: m c rule: rev_induct)
  case Nil
  then show ?case by simp
next
  case (snoc x xs)
  obtain m0 c0 where s0: "fold streak_step xs (0, 0) = (m0, c0)"
    by (cases "fold streak_step xs (0, 0)")
  note ih = snoc.IH [OF s0]
  from snoc.prems s0 have step: "streak_step x (m0, c0) = (m, c)"
    by simp
  from ih obtain suf where suf: "suffix suf xs" "list_all is_loss suf" "length suf = c0"
    by blast
  from ih obtain sub where sub: "sublist sub xs" "list_all is_loss sub" "length sub = m0"
    by blast
  from ih have suf_le: "\<And>ys. suffix ys xs \<Longrightarrow> list_all is_loss ys \<Longrightarrow> length ys \<le> c0"
    by blast
  from ih have sub_le: "\<And>ys. sublist ys xs \<Longrightarrow> list_all is_loss ys \<Longrightarrow> length ys \<le> m0"
    by blast
  show ?case
  proof (cases "is_loss x")
    case True
    with step have mc: "m = max m0 (c0 + 1)" "c = c0 + 1"
      by (auto simp: streak_step_def)
    have A: "\<exists>ys. suffix ys (xs @ [x]) \<and> list_all is_loss ys \<and> length ys = c"
      using suf True mc by (intro exI [of _ "suf @ [x]"]) auto
    have B: "\<forall>ys. suffix ys (xs @ [x]) \<and> list_all is_loss ys \<longrightarrow> length ys \<le> c"
      using suf_le mc by auto
    have C: "\<exists>ys. sublist ys (xs @ [x]) \<and> list_all is_loss ys \<and> length ys = m"
    proof (cases "m0 \<le> c0 + 1")
      case True
      then have "m = c" using mc by simp
      from A obtain ys where "suffix ys (xs @ [x])" "list_all is_loss ys" "length ys = c"
        by blast
      with \<open>m = c\<close> have "sublist ys (xs @ [x]) \<and> list_all is_loss ys \<and> length ys = m"
        using suffix_imp_sublist by blast
      then show ?thesis ..
    next
      case False
      then have "m = m0" using mc by simp
      with sub show ?thesis by (auto simp: sublist_snoc)
    qed
    have D: "\<forall>ys. sublist ys (xs @ [x]) \<and> list_all is_loss ys \<longrightarrow> length ys \<le> m"
    proof (intro allI impI)
      fix ys assume ys: "sublist ys (xs @ [x]) \<and> list_all is_loss ys"
      then consider "suffix ys (xs @ [x])" | "sublist ys xs"
        by (auto simp: sublist_snoc)
      then show "length ys \<le> m"
      proof cases
        case 1
        with B ys have "length ys \<le> c" by blast
        with mc show ?thesis by simp
      next
        case 2
        with sub_le ys have "length ys \<le> m0" by blast
        with mc show ?thesis by simp
      qed
    qed
    from A B C D show ?thesis by blast
  next
    case False
    with step have mc: "m = m0" "c = 0"
      by (auto simp: streak_step_def)
    have A: "\<exists>ys. suffix ys (xs @ [x]) \<and> list_all is_loss ys \<and> length ys = c"
      using mc by (intro exI [of _ "[]"]) simp
    have B: "\<forall>ys. suffix ys (xs @ [x]) \<and> list_all is_loss ys \<longrightarrow> length ys \<le> c"
      using False mc by auto
    have C: "\<exists>ys. sublist ys (xs @ [x]) \<and> list_all is_loss ys \<and> length ys = m"
      using sub mc by (auto simp: sublist_snoc)
    have D: "\<forall>ys. sublist ys (xs @ [x]) \<and> list_all is_loss ys \<longrightarrow> length ys \<le> m"
      using sub_le B mc by (auto simp: sublist_snoc)
    from A B C D show ?thesis by blast
  qed
qed

subsection \<open>The attribution of losses to pairs\<close>

text \<open>
  After the second loop over the trades \<open>ts\<close>, the own properties of \<^verbatim>\<open>lossByPair\<close> are
  the pairs of \<open>ts\<close> that are not keys of \<^verbatim>\<open>Object.prototype\<close>, each once, with the
  count and the total of its group.
\<close>

lemma group_step_map_of:
  assumes "map_of obj = (\<lambda>k. if k \<in> set Object_prototype_keys \<or> k \<notin> currency_pair ` set ts then None
             else Some \<lparr>count = group_count ts k, total' = group_total ts k\<rparr>)"
  shows "map_of (group_step t obj) = (\<lambda>k. if k \<in> set Object_prototype_keys \<or> k \<notin> currency_pair ` set (ts @ [t]) then None
             else Some \<lparr>count = group_count (ts @ [t]) k, total' = group_total (ts @ [t]) k\<rparr>)"
proof (cases "currency_pair t \<in> set Object_prototype_keys")
  case True
  then have "group_step t obj = obj"
    using assms by (simp add: group_step_def)
  with True assms show ?thesis
    by (auto simp: fun_eq_iff group_count_def group_total_def)
next
  case False
  show ?thesis
  proof (cases "currency_pair t \<in> currency_pair ` set ts")
    case True
    with False assms show ?thesis
      by (auto simp: fun_eq_iff group_step_def Let_def map_of_map_entry group_count_def group_total_def)
  next
    case new: False
    then have "filter (\<lambda>u. currency_pair u = currency_pair t) ts = []"
      by (auto simp: filter_empty_conv image_iff)
    with new False assms show ?thesis
      by (auto simp: fun_eq_iff group_step_def Let_def map_of_map_entry update_conv'
          group_count_def group_total_def)
  qed
qed

lemma group_step_distinct:
  "distinct (map fst obj) \<Longrightarrow> distinct (map fst (group_step t obj))"
  by (simp add: group_step_def Let_def distinct_map_entry distinct_update)

lemma fold_group_step:
  "distinct (map fst (fold group_step ts [])) \<and>
   map_of (fold group_step ts []) = (\<lambda>k. if k \<in> set Object_prototype_keys \<or> k \<notin> currency_pair ` set ts then None
             else Some \<lparr>count = group_count ts k, total' = group_total ts k\<rparr>)"
proof (induction ts rule: rev_induct)
  case Nil
  then show ?case by (simp add: fun_eq_iff)
next
  case (snoc t ts)
  then show ?case
    using group_step_map_of [of "fold group_step ts []" ts t] group_step_distinct
    by simp
qed

lemma set_Object_entries: "set (Object_entries obj) = set obj"
  by (auto simp: Object_entries_def)

lemma distinct_map_sort_key:
  "distinct (map f (sort_key g xs)) = distinct (map f xs)"
  by (simp add: distinct_map)

lemma distinct_Object_entries:
  "distinct (map fst obj) \<Longrightarrow> distinct (map fst (Object_entries obj))"
  by (auto simp: Object_entries_def distinct_map_sort_key distinct_map_filter)

lemma pair_to_entry: "map pair (map to_entry xs) = map fst xs"
  by (simp add: to_entry_def)

lemma lossByPair_entry:
  assumes "e \<in> set (lossByPair (calculateLossMetrics trades))"
  shows "pair e \<in> currency_pair ` set (filter is_loss (filter is_closed trades))
    \<and> count e = group_count (filter is_loss (filter is_closed trades)) (pair e)
    \<and> total' e = group_total (filter is_loss (filter is_closed trades)) (pair e)"
proof -
  let ?ts = "filter is_loss (filter is_closed trades)"
  let ?obj = "fold group_step ?ts []"
  from assms have "e \<in> set (take 5 (sort_key total' (map to_entry (Object_entries ?obj))))"
    by (simp add: calculateLossMetrics_eq)
  then have "e \<in> set (sort_key total' (map to_entry (Object_entries ?obj)))"
    by (rule in_set_takeD)
  then have "e \<in> to_entry ` set ?obj"
    by (simp add: set_Object_entries)
  then obtain k d where kd: "(k, d) \<in> set ?obj" "e = to_entry (k, d)"
    by auto
  from fold_group_step [of ?ts, THEN conjunct1] kd(1) have "map_of ?obj k = Some d"
    by simp
  with fold_group_step [of ?ts]
  have "k \<in> currency_pair ` set ?ts \<and> d = \<lparr>count = group_count ?ts k, total' = group_total ?ts k\<rparr>"
    by (auto split: if_splits)
  with kd(2) show ?thesis
    by (simp add: to_entry_def)
qed

lemma lossByPair_sorted: "sorted (map total' (lossByPair (calculateLossMetrics trades)))"
proof -
  let ?es = "map to_entry (Object_entries (fold group_step (filter is_loss (filter is_closed trades)) []))"
  have "sorted (map total' (sort_key total' ?es))"
    by (rule sorted_sort_key)
  then have "sorted (take 5 (map total' (sort_key total' ?es)))"
    by (rule sorted_wrt_take)
  then show ?thesis
    by (simp add: calculateLossMetrics_eq take_map)
qed

lemma lossByPair_distinct: "distinct (map pair (lossByPair (calculateLossMetrics trades)))"
proof -
  let ?obj = "fold group_step (filter is_loss (filter is_closed trades)) []"
  have "distinct (map fst (Object_entries ?obj))"
    using fold_group_step [of "filter is_loss (filter is_closed trades)", THEN conjunct1]
    by (rule distinct_Object_entries)
  then have "distinct (map pair (sort_key total' (map to_entry (Object_entries ?obj))))"
    by (simp only: distinct_map_sort_key pair_to_entry)
  then have "distinct (take 5 (map pair (sort_key total' (map to_entry (Object_entries ?obj)))))"
    by (rule distinct_take)
  then show ?thesis
    by (simp add: calculateLossMetrics_eq take_map)
qed

lemma sorted_take_le_drop:
  fixes f :: "'a \<Rightarrow> 'b::linorder"
  assumes "sorted (map f xs)" "e \<in> set (take n xs)" "x \<in> set (drop n xs)"
  shows "f e \<le> f x"
proof -
  have "map f xs = map f (take n xs) @ map f (drop n xs)"
    by (metis append_take_drop_id map_append)
  with assms(1) have "sorted (map f (take n xs) @ map f (drop n xs))"
    by (simp only:)
  then have "\<forall>a\<in>set (map f (take n xs)). \<forall>b\<in>set (map f (drop n xs)). a \<le> b"
    unfolding sorted_append by blast
  with assms(2,3) show ?thesis
    by simp
qed

lemma lossByPair_complete:
  assumes t: "t \<in> set (filter is_loss (filter is_closed trades))"
    and k: "currency_pair t \<notin> set Object_prototype_keys"
  shows "currency_pair t \<in> pair ` set (lossByPair (calculateLossMetrics trades))
    \<or> (length (lossByPair (calculateLossMetrics trades)) = 5
       \<and> (\<forall>e\<in>set (lossByPair (calculateLossMetrics trades)).
             total' e \<le> group_total (filter is_loss (filter is_closed trades)) (currency_pair t)))"
proof -
  let ?ts = "filter is_loss (filter is_closed trades)"
  let ?obj = "fold group_step ?ts []"
  let ?L = "sort_key total' (map to_entry (Object_entries ?obj))"
  let ?k = "currency_pair t"
  let ?d = "\<lparr>count = group_count ?ts ?k, total' = group_total ?ts ?k\<rparr>"
  have r: "lossByPair (calculateLossMetrics trades) = take 5 ?L"
    by (simp add: calculateLossMetrics_eq)
  from t have mem: "?k \<in> currency_pair ` set ?ts"
    by (rule imageI)
  have "map_of ?obj ?k = Some ?d"
    unfolding fold_group_step [of ?ts, THEN conjunct2] using mem k by simp
  then have "(?k, ?d) \<in> set ?obj"
    by (rule map_of_SomeD)
  then have "to_entry (?k, ?d) \<in> set ?L"
    by (simp add: set_Object_entries)
  then have "to_entry (?k, ?d) \<in> set (take 5 ?L) \<union> set (drop 5 ?L)"
    by (simp only: set_append [symmetric] append_take_drop_id)
  then consider (kept) "to_entry (?k, ?d) \<in> set (take 5 ?L)"
    | (cut) "to_entry (?k, ?d) \<in> set (drop 5 ?L)"
    by blast
  then show ?thesis
  proof cases
    case kept
    then have "pair (to_entry (?k, ?d)) \<in> pair ` set (take 5 ?L)"
      by (rule imageI)
    then show ?thesis
      by (simp add: r to_entry_def)
  next
    case cut
    then have "drop 5 ?L \<noteq> []"
      by auto
    then have len: "length (take 5 ?L) = 5"
      by simp
    have "sorted (map total' ?L)"
      by (rule sorted_sort_key)
    from sorted_take_le_drop [OF this _ cut]
    have "\<forall>e\<in>set (take 5 ?L). total' e \<le> total' (to_entry (?k, ?d))"
      by blast
    with len show ?thesis
      by (simp add: r to_entry_def)
  qed
qed

subsection \<open>The claims on calculateLossMetrics\<close>

text \<open>
  Claim C1. For every list of trades, \<open>longestStreak\<close> is the length of the longest run
  of consecutive losing trades among the closed trades in ascending order of
  \<open>exit_time\<close>: some run of losses has that length and no run of losses is longer. It is
  the first component of the single left-to-right scan \<open>streak_step\<close>, whose counter is
  reset by a trade that is not a loss. When the closed trades in that order are four
  trades with the results -10, -20, +5, -30, \<open>longestStreak\<close> is 2.
\<close>

theorem longestStreak_longest_losing_run:
  "(\<exists>ys. is_losing_run ys (sort_key exit_time (filter is_closed trades))
         \<and> length ys = longestStreak (calculateLossMetrics trades))
   \<and> (\<forall>ys. is_losing_run ys (sort_key exit_time (filter is_closed trades))
         \<longrightarrow> length ys \<le> longestStreak (calculateLossMetrics trades))
   \<and> longestStreak (calculateLossMetrics trades)
       = fst (fold streak_step (sort_key exit_time (filter is_closed trades)) (0, 0))
   \<and> (sort_key exit_time (filter is_closed trades) = [t1, t2, t3, t4]
        \<and> profit_loss t1 = Some (- 10) \<and> profit_loss t2 = Some (- 20)
        \<and> profit_loss t3 = Some 5 \<and> profit_loss t4 = Some (- 30)
       \<longrightarrow> longestStreak (calculateLossMetrics trades) = 2)"
proof -
  let ?xs = "sort_key exit_time (filter is_closed trades)"
  obtain m c where mc: "fold streak_step ?xs (0, 0) = (m, c)"
    by (cases "fold streak_step ?xs (0, 0)")
  have n: "longestStreak (calculateLossMetrics trades) = m"
    by (simp add: calculateLossMetrics_eq mc)
  have scan: "longestStreak (calculateLossMetrics trades) = fst (fold streak_step ?xs (0, 0))"
    by (simp add: calculateLossMetrics_eq)
  have scenario: "longestStreak (calculateLossMetrics trades) = 2"
    if "?xs = [t1, t2, t3, t4]" "profit_loss t1 = Some (- 10)" "profit_loss t2 = Some (- 20)"
      "profit_loss t3 = Some 5" "profit_loss t4 = Some (- 30)"
    using that by (simp add: scan streak_step_def is_loss_def ToNumber_def)
  note inv = streak_invariant [OF mc]
  have longest: "\<exists>ys. is_losing_run ys ?xs \<and> length ys = longestStreak (calculateLossMetrics trades)"
    unfolding is_losing_run_def n using inv by simp
  have bound: "\<forall>ys. is_losing_run ys ?xs \<longrightarrow> length ys \<le> longestStreak (calculateLossMetrics trades)"
    unfolding is_losing_run_def n using inv by simp
  show ?thesis
    using longest bound scan scenario by (intro conjI impI) simp_all
qed

theorem longestStreak_longest_losing_run_witness:
  "sort_key exit_time (filter is_closed streak_scenario)
     = [sample_trade 1 ''EURUSD'' 100 (- 10), sample_trade 2 ''USDJPY'' 200 (- 20),
        sample_trade 3 ''GBPUSD'' 300 5, sample_trade 4 ''EURUSD'' 400 (- 30)]
   \<and> longestStreak (calculateLossMetrics streak_scenario) = 2
   \<and> is_losing_run [sample_trade 1 ''EURUSD'' 100 (- 10), sample_trade 2 ''USDJPY'' 200 (- 20)]
        (sort_key exit_time (filter is_closed streak_scenario))"
proof -
  have sorted: "sort_key exit_time (filter is_closed streak_scenario)
     = [sample_trade 1 ''EURUSD'' 100 (- 10), sample_trade 2 ''USDJPY'' 200 (- 20),
        sample_trade 3 ''GBPUSD'' 300 5, sample_trade 4 ''EURUSD'' 400 (- 30)]"
    by (simp add: streak_scenario_def sample_trade_def is_closed_def)
  have pl: "profit_loss (sample_trade 1 ''EURUSD'' 100 (- 10)) = Some (- 10)"
    "profit_loss (sample_trade 2 ''USDJPY'' 200 (- 20)) = Some (- 20)"
    "profit_loss (sample_trade 3 ''GBPUSD'' 300 5) = Some 5"
    "profit_loss (sample_trade 4 ''EURUSD'' 400 (- 30)) = Some (- 30)"
    by (simp_all add: sample_trade_def)
  have run: "is_losing_run [sample_trade 1 ''EURUSD'' 100 (- 10), sample_trade 2 ''USDJPY'' 200 (- 20)]
        (sort_key exit_time (filter is_closed streak_scenario))"
    unfolding sorted is_losing_run_def
    by (simp add: sublist_Cons_right is_loss_def ToNumber_def sample_trade_def)
  note inst = longestStreak_longest_losing_run [of streak_scenario
      "sample_trade 1 ''EURUSD'' 100 (- 10)" "sample_trade 2 ''USDJPY'' 200 (- 20)"
      "sample_trade 3 ''GBPUSD'' 300 5" "sample_trade 4 ''EURUSD'' 400 (- 30)"]
  have two: "longestStreak (calculateLossMetrics streak_scenario) = 2"
    using inst [THEN conjunct2, THEN conjunct2, THEN conjunct2] sorted pl by (elim impE) simp_all
  from sorted two run show ?thesis by (intro conjI)
qed

subsection \<open>Evaluation on the sample inputs\<close>

lemma is_array_index_samples:
  "\<not> is_array_index ''EURUSD''" "\<not> is_array_index ''USDJPY''" "\<not> is_array_index ''GBPUSD''"
  "\<not> is_array_index ''AUDUSD''" "\<not> is_array_index ''USDCAD''" "\<not> is_array_index ''NZDUSD''"
  by (simp_all add: is_array_index_def is_digit_def)

lemma losing_attribution_sample:
  "filter is_loss (filter is_closed attribution_sample) = butlast attribution_sample"
  by (simp add: attribution_sample_def sample_trade_def is_closed_def is_loss_def ToNumber_def)

lemma lossByPair_attribution_sample:
  "lossByPair (calculateLossMetrics attribution_sample)
     = [\<lparr>count = 1, total' = - 50, pair = ''USDCAD''\<rparr>,
        \<lparr>count = 2, total' = - 40, pair = ''EURUSD''\<rparr>,
        \<lparr>count = 1, total' = - 20, pair = ''USDJPY''\<rparr>,
        \<lparr>count = 1, total' = - 7, pair = ''AUDUSD''\<rparr>,
        \<lparr>count = 1, total' = - 5, pair = ''GBPUSD''\<rparr>]"
  by (simp add: calculateLossMetrics_eq attribution_sample_def sample_trade_def is_closed_def
      is_loss_def ToNumber_def group_step_def Object_prototype_keys_def Let_def
      Object_entries_def is_array_index_samples to_entry_def)

lemma calculateLossMetrics_single:
  "calculateLossMetrics single_loss_sample
     = \<lparr>totalLosses = 1, longestStreak = 1,
        lossByPair = [\<lparr>count = 1, total' = - 10, pair = ''EURUSD''\<rparr>],
        recentLosses = single_loss_sample\<rparr>"
  by (simp add: calculateLossMetrics_eq single_loss_sample_def sample_trade_def is_closed_def
      is_loss_def ToNumber_def group_step_def Object_prototype_keys_def Let_def
      Object_entries_def is_array_index_samples to_entry_def streak_step_def)

lemma calculateLossMetrics_constructor:
  "calculateLossMetrics constructor_sample
     = \<lparr>totalLosses = 1, longestStreak = 1, lossByPair = [],
        recentLosses = constructor_sample\<rparr>"
  by (simp add: calculateLossMetrics_eq constructor_sample_def sample_trade_def is_closed_def
      is_loss_def ToNumber_def group_step_def Object_prototype_keys_def Let_def
      Object_entries_def streak_step_def)

lemma losing_proto_sample:
  "filter is_loss (filter is_closed proto_sample) = proto_sample"
  by (simp add: proto_sample_def sample_trade_def is_closed_def is_loss_def ToNumber_def)

lemma losing_no_loss_sample:
  "\<forall>t\<in>set no_loss_sample. is_closed t \<longrightarrow> \<not> is_loss t"
  by (simp add: no_loss_sample_def sample_trade_def is_closed_def is_loss_def ToNumber_def)

subsection \<open>Auxiliary facts\<close>

lemma sum_list_neg:
  fixes xs :: "rat list"
  shows "xs \<noteq> [] \<Longrightarrow> \<forall>x\<in>set xs. x < 0 \<Longrightarrow> sum_list xs < 0"
proof (induction xs)
  case Nil
  then show ?case by simp
next
  case (Cons x xs)
  then show ?case
    by (cases "xs = []") (auto intro: add_neg_neg)
qed

lemma fold_streak_no_loss:
  "\<forall>t\<in>set xs. \<not> is_loss t \<Longrightarrow> fst (fold streak_step xs (m, c)) = m"
  by (induction xs arbitrary: c) (simp_all add: streak_step_def)

lemma zero_result_without_losses:
  assumes a: "\<forall>t\<in>set ts. is_closed t \<longrightarrow> \<not> is_loss t"
  shows "calculateLossMetrics ts
       = \<lparr>totalLosses = 0, longestStreak = 0, lossByPair = [], recentLosses = []\<rparr>"
proof -
  from a have losing: "filter is_loss (filter is_closed ts) = []"
    by (auto simp: filter_empty_conv)
  from a have "\<forall>t\<in>set (sort_key exit_time (filter is_closed ts)). \<not> is_loss t"
    by simp
  then have "fst (fold streak_step (sort_key exit_time (filter is_closed ts)) (0, 0)) = 0"
    by (rule fold_streak_no_loss)
  with losing show ?thesis
    by (simp add: calculateLossMetrics_eq Object_entries_def)
qed

lemma totalLosses_eq:
  "totalLosses (calculateLossMetrics ts) = length (filter is_loss (filter is_closed ts))"
  by (simp add: calculateLossMetrics_eq)

lemma Analytics_loaded:
  "Analytics False (Some s) trades = Inr (losses_tab s (calculateLossMetrics trades))"
  by (simp add: Analytics_def Let_def)

lemma shown_insights_rendered:
  "0 < totalLosses m \<Longrightarrow> shown_insights (losses_tab s m) = loss_insights s m"
  by (simp add: losses_tab_def)

subsection \<open>The claims on the attribution and on the result as a whole\<close>

text \<open>
  What holds of \<open>lossByPair\<close> for every list of trades. Each entry is the group of its
  pair among the losing trades: its \<open>count\<close> is the number of losing trades on that pair
  and its \<open>total\<close> the sum of their \<open>profit_loss\<close>. The pair of a losing trade that is
  not a key of \<^verbatim>\<open>Object.prototype\<close> has an entry unless five groups with totals at most
  as large fill the list. No pair has two entries, the entries are in ascending order
  of \<open>total\<close>, and there are at most 5.
\<close>

lemma lossByPair_groups:
  "(\<forall>e \<in> set (lossByPair (calculateLossMetrics trades)).
      count e = group_count (filter is_loss (filter is_closed trades)) (pair e)
      \<and> total' e = group_total (filter is_loss (filter is_closed trades)) (pair e))
   \<and> (\<forall>t \<in> set (filter is_loss (filter is_closed trades)).
        currency_pair t \<notin> set Object_prototype_keys \<longrightarrow>
        currency_pair t \<in> pair ` set (lossByPair (calculateLossMetrics trades))
        \<or> (length (lossByPair (calculateLossMetrics trades)) = 5
           \<and> (\<forall>e\<in>set (lossByPair (calculateLossMetrics trades)).
                 total' e
                   \<le> group_total (filter is_loss (filter is_closed trades)) (currency_pair t))))
   \<and> distinct (map pair (lossByPair (calculateLossMetrics trades)))
   \<and> sorted (map total' (lossByPair (calculateLossMetrics trades)))
   \<and> length (lossByPair (calculateLossMetrics trades)) \<le> 5"
proof (intro conjI ballI impI)
  fix e assume "e \<in> set (lossByPair (calculateLossMetrics trades))"
  from lossByPair_entry [OF this]
  show "count e = group_count (filter is_loss (filter is_closed trades)) (pair e)"
    and "total' e = group_total (filter is_loss (filter is_closed trades)) (pair e)"
    by simp_all
next
  fix t assume "t \<in> set (filter is_loss (filter is_closed trades))"
    and "currency_pair t \<notin> set Object_prototype_keys"
  then show "currency_pair t \<in> pair ` set (lossByPair (calculateLossMetrics trades))
        \<or> (length (lossByPair (calculateLossMetrics trades)) = 5
           \<and> (\<forall>e\<in>set (lossByPair (calculateLossMetrics trades)).
                 total' e
                   \<le> group_total (filter is_loss (filter is_closed trades)) (currency_pair t)))"
    by (rule lossByPair_complete)
next
  show "distinct (map pair (lossByPair (calculateLossMetrics trades)))"
    by (rule lossByPair_distinct)
  show "sorted (map total' (lossByPair (calculateLossMetrics trades)))"
    by (rule lossByPair_sorted)
  show "length (lossByPair (calculateLossMetrics trades)) \<le> 5"
    by (simp add: calculateLossMetrics_eq)
qed

lemma lossByPair_groups_sample:
  "\<lparr>count = 2, total' = - 40, pair = ''EURUSD''\<rparr>
      \<in> set (lossByPair (calculateLossMetrics attribution_sample))
   \<and> group_count (filter is_loss (filter is_closed attribution_sample)) ''EURUSD'' = 2
   \<and> group_total (filter is_loss (filter is_closed attribution_sample)) ''EURUSD'' = - 40
   \<and> sample_trade 7 ''NZDUSD'' 700 (- 1)
      \<in> set (filter is_loss (filter is_closed attribution_sample))
   \<and> ''NZDUSD'' \<notin> set Object_prototype_keys
   \<and> ''NZDUSD'' \<notin> pair ` set (lossByPair (calculateLossMetrics attribution_sample))
   \<and> length (lossByPair (calculateLossMetrics attribution_sample)) = 5
   \<and> - 40 \<le> group_total (filter is_loss (filter is_closed attribution_sample)) ''NZDUSD''"
proof -
  let ?r = "lossByPair (calculateLossMetrics attribution_sample)"
  let ?losing = "filter is_loss (filter is_closed attribution_sample)"
  let ?t = "sample_trade 7 ''NZDUSD'' 700 (- 1)"
  have mem: "\<lparr>count = 2, total' = - 40, pair = ''EURUSD''\<rparr> \<in> set ?r"
    by (simp add: lossByPair_attribution_sample)
  note inst = lossByPair_groups [of attribution_sample]
  from inst [THEN conjunct1, THEN bspec, OF mem]
  have grp: "group_count ?losing ''EURUSD'' = 2" "group_total ?losing ''EURUSD'' = - 40"
    by simp_all
  have t: "?t \<in> set ?losing"
    unfolding losing_attribution_sample by (simp add: attribution_sample_def)
  have k: "currency_pair ?t = ''NZDUSD''"
    by (simp add: sample_trade_def)
  have np: "''NZDUSD'' \<notin> set Object_prototype_keys"
    by (simp add: Object_prototype_keys_def)
  have out: "''NZDUSD'' \<notin> pair ` set ?r"
    by (simp add: lossByPair_attribution_sample)
  from inst [THEN conjunct2, THEN conjunct1, THEN bspec, OF t] np out
  have full: "length ?r = 5 \<and> (\<forall>e\<in>set ?r. total' e \<le> group_total ?losing ''NZDUSD'')"
    unfolding k by blast
  from full mem have "total' \<lparr>count = 2, total' = - 40, pair = ''EURUSD''\<rparr>
      \<le> group_total ?losing ''NZDUSD''"
    by blast
  then have "- 40 \<le> group_total ?losing ''NZDUSD''"
    by simp
  with mem grp t np out full show ?thesis
    by (intro conjI) simp_all
qed

text \<open>
  Claim C6, on the code. The claim is that the losing trades are grouped by
  \<open>currency_pair\<close>. For one closed losing trade on the pair \<^verbatim>\<open>constructor\<close> the function
  counts the trade (\<open>totalLosses = 1\<close>, and it is the one recent loss), but \<open>lossByPair\<close>
  is empty: the read \<^verbatim>\<open>lossByPair[trade.currency_pair]\<close> of line 53 finds the function
  inherited from \<^verbatim>\<open>Object.prototype\<close>, so no group is created for the pair.
\<close>

theorem lossByPair_misses_prototype_key:
  "calculateLossMetrics constructor_sample
     = \<lparr>totalLosses = 1, longestStreak = 1, lossByPair = [],
        recentLosses = constructor_sample\<rparr>
   \<and> group_count (filter is_loss (filter is_closed constructor_sample)) ''constructor'' = 1"
  by (simp add: calculateLossMetrics_constructor group_count_def)
    (simp add: constructor_sample_def sample_trade_def is_closed_def is_loss_def ToNumber_def)

text \<open>
  Claim C9. For every list of trades, every entry of \<open>lossByPair\<close> has a \<open>count\<close> of at
  least 1 and a strictly negative \<open>total\<close>.
\<close>

theorem lossByPair_entries_negative:
  "\<forall>e \<in> set (lossByPair (calculateLossMetrics trades)). 1 \<le> count e \<and> total' e < 0"
proof
  fix e assume e: "e \<in> set (lossByPair (calculateLossMetrics trades))"
  let ?ts = "filter is_loss (filter is_closed trades)"
  let ?g = "filter (\<lambda>t. currency_pair t = pair e) ?ts"
  note ent = lossByPair_entry [OF e]
  from ent obtain t where "t \<in> set ?ts" "currency_pair t = pair e"
    by auto
  then have ne: "?g \<noteq> []"
    by (auto simp: filter_empty_conv)
  have neg: "\<forall>x\<in>set (map (\<lambda>t. ToNumber (profit_loss t)) ?g). x < 0"
    by (auto simp: is_loss_def)
  from ne have cnt: "1 \<le> length ?g"
    by (cases ?g) simp_all
  from ne neg have "sum_list (map (\<lambda>t. ToNumber (profit_loss t)) ?g) < 0"
    by (intro sum_list_neg) simp_all
  with cnt ent show "1 \<le> count e \<and> total' e < 0"
    by (simp add: group_count_def group_total_def)
qed

theorem lossByPair_entries_negative_witness:
  "\<lparr>count = 1, total' = - 50, pair = ''USDCAD''\<rparr>
      \<in> set (lossByPair (calculateLossMetrics attribution_sample))
   \<and> 1 \<le> count \<lparr>count = 1, total' = - 50, pair = ''USDCAD''\<rparr>
   \<and> total' \<lparr>count = 1, total' = - 50, pair = ''USDCAD''\<rparr> < 0"
proof -
  have mem: "\<lparr>count = 1, total' = - 50, pair = ''USDCAD''\<rparr>
      \<in> set (lossByPair (calculateLossMetrics attribution_sample))"
    by (simp add: lossByPair_attribution_sample)
  from lossByPair_entries_negative [of attribution_sample, THEN bspec, OF mem] mem
  show ?thesis by (intro conjI) (erule conjunct1 conjunct2 | assumption)+
qed

text \<open>
  Claim C7. For every list of trades with no losing trade (no closed trade with a
  negative \<open>profit_loss\<close>), the result is exactly \<open>totalLosses = 0\<close>, \<open>longestStreak = 0\<close>,
  \<open>lossByPair = []\<close>, \<open>recentLosses = []\<close>; the empty list is such a list, and gives
  this result rather than an error.
\<close>

theorem no_losing_trades_zero_result:
  "((\<forall>t\<in>set trades. is_closed t \<longrightarrow> \<not> is_loss t) \<longrightarrow>
     calculateLossMetrics trades
       = \<lparr>totalLosses = 0, longestStreak = 0, lossByPair = [], recentLosses = []\<rparr>)
   \<and> calculateLossMetrics []
       = \<lparr>totalLosses = 0, longestStreak = 0, lossByPair = [], recentLosses = []\<rparr>"
  using zero_result_without_losses [of trades] zero_result_without_losses [of "[]"] by simp

theorem no_losing_trades_zero_result_witness:
  "no_loss_sample \<noteq> []
   \<and> calculateLossMetrics no_loss_sample
       = \<lparr>totalLosses = 0, longestStreak = 0, lossByPair = [], recentLosses = []\<rparr>"
proof -
  have "no_loss_sample \<noteq> []"
    by (simp add: no_loss_sample_def)
  with no_losing_trades_zero_result [of no_loss_sample, THEN conjunct1, THEN mp,
      OF losing_no_loss_sample]
  show ?thesis by simp
qed

text \<open>
  Claim C8, on the code. The claim is that the function is pure. For one closed losing
  trade on the pair \<^verbatim>\<open>__proto__\<close>, the read of line 53 finds \<^verbatim>\<open>Object.prototype\<close> itself,
  and lines 56 and 57 write \<^verbatim>\<open>count\<close> and \<^verbatim>\<open>total\<close> on it: the call changes an object
  that it did not create, and that every object inherits from. The returned value is
  not affected, and a second evaluation returns it again.
\<close>

theorem calculateLossMetrics_writes_prototype:
  "tainted (snd (calculateLossMetrics_st 0 \<lparr>arrays = [proto_sample], tainted = {}\<rparr>))
     = {''__proto__''}
   \<and> fst (calculateLossMetrics_st 0
            (snd (calculateLossMetrics_st 0 \<lparr>arrays = [proto_sample], tainted = {}\<rparr>)))
       = fst (calculateLossMetrics_st 0 \<lparr>arrays = [proto_sample], tainted = {}\<rparr>)"
proof -
  have "tainted (snd (calculateLossMetrics_st 0 \<lparr>arrays = [proto_sample], tainted = {}\<rparr>))
     = snd (fold forEach_step proto_sample ([], {}))"
    by (simp add: calculateLossMetrics_st_eq Let_def losing_proto_sample del: filter_filter)
  also have "\<dots> = {''__proto__''}"
    by (simp add: proto_sample_def sample_trade_def forEach_step_def Object_prototype_keys_def)
  finally have w: "tainted (snd (calculateLossMetrics_st 0 \<lparr>arrays = [proto_sample], tainted = {}\<rparr>))
     = {''__proto__''}" .
  have "0 < length (arrays \<lparr>arrays = [proto_sample], tainted = {}\<rparr>)"
    by simp
  from calculateLossMetrics_st_result [OF this, THEN conjunct2, THEN conjunct2] w
  show ?thesis by (intro conjI)
qed

subsection \<open>The claims on the "Losses Analysis" tab\<close>

text \<open>
  Claim C2, as stated: the percentage of losing trades is defined as 0 when
  \<open>total_trades\<close> is 0. It fails for statistics with \<open>total_trades = 0\<close> next to a trade
  list with one losing trade (the two come from two requests): the tab is rendered and
  the figure is the quotient \<open>1 / 0\<close>, which is Infinity and not 0.
\<close>

theorem loss_percentage_zero_guard_counterexample:
  "total_trades (sample_stats 0 0 0 (- 10)) = 0
   \<and> Analytics False (Some (sample_stats 0 0 0 (- 10))) single_loss_sample
      = Inr (LossAnalysis PosInf [WorstTrade 10, WorstPair ''EURUSD''])
   \<and> PosInf \<noteq> Fin 0"
proof -
  have "loss_percentage (sample_stats 0 0 0 (- 10)) (calculateLossMetrics single_loss_sample)
      = PosInf"
    unfolding calculateLossMetrics_single by (simp add: loss_percentage_def sample_stats_def)
  moreover have "loss_insights (sample_stats 0 0 0 (- 10)) (calculateLossMetrics single_loss_sample)
      = [WorstTrade 10, WorstPair ''EURUSD'']"
    unfolding calculateLossMetrics_single by (simp add: loss_insights_def sample_stats_def)
  moreover have "0 < totalLosses (calculateLossMetrics single_loss_sample)"
    unfolding calculateLossMetrics_single by simp
  ultimately show ?thesis
    by (simp add: Analytics_loaded losses_tab_def sample_stats_def)
qed

text \<open>
  Claim C2, amended. With loaded statistics, the guard of the code is on \<open>totalLosses\<close>,
  not on \<open>total_trades\<close>: the percentage is computed only when there is at least one
  losing trade, and with no losing trade the tab shows "Perfect Record!" and nothing is
  divided. Where it is computed it is never NaN, and it is the number
  \<open>totalLosses / total_trades * 100\<close> whenever \<open>total_trades\<close> is positive.
\<close>

theorem loss_percentage_gated:
  "(0 < totalLosses m \<longrightarrow>
      losses_tab s m = LossAnalysis (loss_percentage s m) (loss_insights s m)
      \<and> loss_percentage s m \<noteq> NaN
      \<and> (0 < total_trades s \<longrightarrow>
           loss_percentage s m
             = Fin (of_nat (totalLosses m) / of_nat (total_trades s) * 100)))
   \<and> (totalLosses m = 0 \<longrightarrow> losses_tab s m = PerfectRecord)
   \<and> Analytics False (Some s) trades = Inr (losses_tab s (calculateLossMetrics trades))"
  by (simp add: losses_tab_def loss_percentage_def Analytics_loaded)

theorem loss_percentage_gated_witness:
  "0 < totalLosses (calculateLossMetrics single_loss_sample)
   \<and> 0 < total_trades (sample_stats 4 0 0 (- 10))
   \<and> loss_percentage (sample_stats 4 0 0 (- 10))
        (calculateLossMetrics single_loss_sample) = Fin 25"
proof -
  have pos: "0 < totalLosses (calculateLossMetrics single_loss_sample)"
    by (simp add: calculateLossMetrics_single)
  have tot: "0 < total_trades (sample_stats 4 0 0 (- 10))"
    by (simp add: sample_stats_def)
  from loss_percentage_gated [of "calculateLossMetrics single_loss_sample"
      "sample_stats 4 0 0 (- 10)", THEN conjunct1, THEN mp, OF pos,
      THEN conjunct2, THEN conjunct2, THEN mp, OF tot]
  have "loss_percentage (sample_stats 4 0 0 (- 10))
        (calculateLossMetrics single_loss_sample) = Fin 25"
    by (simp add: calculateLossMetrics_single sample_stats_def)
  with pos tot show ?thesis by (intro conjI)
qed

text \<open>
  Claim C3, as stated: a line citing \<open>worst_trade\<close> is emitted for every input. It fails
  for loaded statistics and a trade list without a losing trade: the tab shows "Perfect
  Record!" and no insight line at all.
\<close>

theorem insights_always_counterexample:
  "Analytics False (Some (sample_stats 1 5 0 5)) no_loss_sample = Inr PerfectRecord
   \<and> shown_insights PerfectRecord = []"
  using zero_result_without_losses [OF losing_no_loss_sample]
  by (simp add: Analytics_loaded losses_tab_def)

text \<open>
  Claim C3, amended. With loaded statistics: when \<open>totalLosses\<close> is positive, the
  insights hold exactly one line citing \<open>worst_trade\<close>, a streak warning iff
  \<open>longestStreak > 2\<close>, a risk-sizing suggestion iff \<open>average_loss < -50\<close>, and a line
  naming a pair iff \<open>lossByPair\<close> is not empty, the pair being that of \<open>lossByPair[0]\<close>.
  When \<open>totalLosses\<close> is 0, no insight is emitted.
\<close>

theorem insights_gated:
  "(0 < totalLosses m \<longrightarrow>
      count_list (shown_insights (losses_tab s m)) (WorstTrade \<bar>worst_trade s\<bar>) = 1
      \<and> (WorstTrade x \<in> set (shown_insights (losses_tab s m))) = (x = \<bar>worst_trade s\<bar>)
      \<and> (StreakWarning n \<in> set (shown_insights (losses_tab s m)))
          = (2 < longestStreak m \<and> n = longestStreak m)
      \<and> (RiskSizing \<in> set (shown_insights (losses_tab s m))) = (average_loss s < - 50)
      \<and> (WorstPair p \<in> set (shown_insights (losses_tab s m)))
          = (lossByPair m \<noteq> [] \<and> p = pair (lossByPair m ! 0)))
   \<and> (totalLosses m = 0 \<longrightarrow> shown_insights (losses_tab s m) = [])
   \<and> Analytics False (Some s) trades = Inr (losses_tab s (calculateLossMetrics trades))"
proof (intro conjI impI)
  assume pos: "0 < totalLosses m"
  note shown = shown_insights_rendered [OF pos, of s]
  show "count_list (shown_insights (losses_tab s m)) (WorstTrade \<bar>worst_trade s\<bar>) = 1"
    unfolding shown by (simp add: loss_insights_def)
  show "(WorstTrade x \<in> set (shown_insights (losses_tab s m))) = (x = \<bar>worst_trade s\<bar>)"
    unfolding shown by (simp add: loss_insights_def)
  show "(StreakWarning n \<in> set (shown_insights (losses_tab s m)))
          = (2 < longestStreak m \<and> n = longestStreak m)"
    unfolding shown by (auto simp: loss_insights_def)
  show "(RiskSizing \<in> set (shown_insights (losses_tab s m))) = (average_loss s < - 50)"
    unfolding shown by (simp add: loss_insights_def)
  show "(WorstPair p \<in> set (shown_insights (losses_tab s m)))
          = (lossByPair m \<noteq> [] \<and> p = pair (lossByPair m ! 0))"
    unfolding shown by (auto simp: loss_insights_def)
next
  assume "totalLosses m = 0"
  then show "shown_insights (losses_tab s m) = []"
    by (simp add: losses_tab_def)
next
  show "Analytics False (Some s) trades = Inr (losses_tab s (calculateLossMetrics trades))"
    by (rule Analytics_loaded)
qed

theorem insights_gated_witness:
  "0 < totalLosses (calculateLossMetrics attribution_sample)
   \<and> WorstPair ''USDCAD''
       \<in> set (shown_insights (losses_tab (sample_stats 9 (- 111) (- 60) (- 50))
                (calculateLossMetrics attribution_sample)))
   \<and> RiskSizing
       \<in> set (shown_insights (losses_tab (sample_stats 9 (- 111) (- 60) (- 50))
                (calculateLossMetrics attribution_sample)))"
proof -
  have pos: "0 < totalLosses (calculateLossMetrics attribution_sample)"
    unfolding totalLosses_eq losing_attribution_sample by (simp add: attribution_sample_def)
  note inst = insights_gated [of "calculateLossMetrics attribution_sample"
      "sample_stats 9 (- 111) (- 60) (- 50)" _ _ "''USDCAD''", THEN conjunct1, THEN mp, OF pos]
  note risk = inst [THEN conjunct2, THEN conjunct2, THEN conjunct2, THEN conjunct1]
  note worst = inst [THEN conjunct2, THEN conjunct2, THEN conjunct2, THEN conjunct2]
  have "WorstPair ''USDCAD''
       \<in> set (shown_insights (losses_tab (sample_stats 9 (- 111) (- 60) (- 50))
                (calculateLossMetrics attribution_sample)))"
    unfolding worst by (simp add: lossByPair_attribution_sample)
  moreover have "RiskSizing
       \<in> set (shown_insights (losses_tab (sample_stats 9 (- 111) (- 60) (- 50))
                (calculateLossMetrics attribution_sample)))"
    unfolding risk by (simp add: sample_stats_def)
  ultimately show ?thesis using pos by (intro conjI)
qed

subsection \<open>The claims on the goals\<close>

lemma calculateProgress_finite:
  "target_amount g \<noteq> 0 \<Longrightarrow>
     calculateProgress (Some s) g
       = Fin (min (total_profit_loss s / target_amount g * 100) 100)"
  by (simp add: calculateProgress_def min_def)

text \<open>
  Claim C4. For every goal, statistics and instant, the status is decided in this
  order, the first match winning: "completed" iff the goal is completed; "achieved" iff
  it is not completed and the progress is at least 100; "expired" iff neither holds and
  \<open>daysLeft < 0\<close>; "urgent" iff none of these holds and \<open>daysLeft \<le> 7\<close>; "active" iff
  none of the four tests holds. A goal that is not completed, with \<open>target_amount = 1000\<close>
  and \<open>total_profit_loss = 1200\<close>, has progress 100 and status "achieved".
\<close>

theorem getGoalStatus_priority:
  "(getGoalStatus st now g = ''completed'') = completed g
   \<and> (getGoalStatus st now g = ''achieved'')
       = (\<not> completed g \<and> js_ge (calculateProgress st g) (Fin 100))
   \<and> (getGoalStatus st now g = ''expired'')
       = (\<not> completed g \<and> \<not> js_ge (calculateProgress st g) (Fin 100)
          \<and> js_lt (daysLeft now g) (Fin 0))
   \<and> (getGoalStatus st now g = ''urgent'')
       = (\<not> completed g \<and> \<not> js_ge (calculateProgress st g) (Fin 100)
          \<and> \<not> js_lt (daysLeft now g) (Fin 0) \<and> js_le (daysLeft now g) (Fin 7))
   \<and> (getGoalStatus st now g = ''active'')
       = (\<not> completed g \<and> \<not> js_ge (calculateProgress st g) (Fin 100)
          \<and> \<not> js_lt (daysLeft now g) (Fin 0) \<and> \<not> js_le (daysLeft now g) (Fin 7))
   \<and> (\<not> completed g \<and> target_amount g = 1000 \<and> total_profit_loss s = 1200 \<longrightarrow>
         calculateProgress (Some s) g = Fin 100
         \<and> getGoalStatus (Some s) now g = ''achieved'')"
proof (intro conjI impI)
  show "(getGoalStatus st now g = ''completed'') = completed g"
    by (simp add: getGoalStatus_def Let_def)
  show "(getGoalStatus st now g = ''achieved'')
       = (\<not> completed g \<and> js_ge (calculateProgress st g) (Fin 100))"
    by (simp add: getGoalStatus_def Let_def)
  show "(getGoalStatus st now g = ''expired'')
       = (\<not> completed g \<and> \<not> js_ge (calculateProgress st g) (Fin 100)
          \<and> js_lt (daysLeft now g) (Fin 0))"
    by (simp add: getGoalStatus_def Let_def)
  show "(getGoalStatus st now g = ''urgent'')
       = (\<not> completed g \<and> \<not> js_ge (calculateProgress st g) (Fin 100)
          \<and> \<not> js_lt (daysLeft now g) (Fin 0) \<and> js_le (daysLeft now g) (Fin 7))"
    by (simp add: getGoalStatus_def Let_def)
  show "(getGoalStatus st now g = ''active'')
       = (\<not> completed g \<and> \<not> js_ge (calculateProgress st g) (Fin 100)
          \<and> \<not> js_lt (daysLeft now g) (Fin 0) \<and> \<not> js_le (daysLeft now g) (Fin 7))"
    by (simp add: getGoalStatus_def Let_def)
next
  assume a: "\<not> completed g \<and> target_amount g = 1000 \<and> total_profit_loss s = 1200"
  then show p: "calculateProgress (Some s) g = Fin 100"
    by (simp add: calculateProgress_finite)
  with a show "getGoalStatus (Some s) now g = ''achieved''"
    by (simp add: getGoalStatus_def Let_def js_ge_def)
qed

theorem getGoalStatus_priority_witness:
  "\<not> completed (sample_goal 1000 (Some 864000000) False)
   \<and> calculateProgress (Some (sample_stats 9 1200 (- 60) (- 50)))
        (sample_goal 1000 (Some 864000000) False) = Fin 100
   \<and> getGoalStatus (Some (sample_stats 9 1200 (- 60) (- 50))) 0
        (sample_goal 1000 (Some 864000000) False) = ''achieved''"
proof -
  have hyp: "\<not> completed (sample_goal 1000 (Some 864000000) False)
      \<and> target_amount (sample_goal 1000 (Some 864000000) False) = 1000
      \<and> total_profit_loss (sample_stats 9 1200 (- 60) (- 50)) = 1200"
    by (simp add: sample_goal_def sample_stats_def)
  from getGoalStatus_priority [of _ 0 "sample_goal 1000 (Some 864000000) False"
      "sample_stats 9 1200 (- 60) (- 50)", THEN conjunct2, THEN conjunct2, THEN conjunct2,
      THEN conjunct2, THEN conjunct2, THEN mp, OF hyp] hyp
  show ?thesis by (intro conjI) (erule conjunct1 conjunct2)+
qed

text \<open>
  Claim C5. For every goal with a positive \<open>target_amount\<close> and all statistics, the
  progress is \<open>total_profit_loss / target_amount * 100\<close> clamped at 100 from above and
  not from below: it never exceeds 100 (also while the statistics are not loaded), and
  a negative \<open>total_profit_loss\<close> gives the negative quotient itself.
\<close>

theorem calculateProgress_clamped_above_only:
  "0 < target_amount g \<Longrightarrow>
     calculateProgress (Some s) g
       = Fin (min (total_profit_loss s / target_amount g * 100) 100)
     \<and> js_le (calculateProgress st g) (Fin 100)
     \<and> (total_profit_loss s < 0 \<longrightarrow>
          calculateProgress (Some s) g = Fin (total_profit_loss s / target_amount g * 100)
          \<and> total_profit_loss s / target_amount g * 100 < 0)"
proof (intro conjI impI)
  assume pos: "0 < target_amount g"
  then show fin: "calculateProgress (Some s) g
       = Fin (min (total_profit_loss s / target_amount g * 100) 100)"
    by (simp add: calculateProgress_finite)
  show "js_le (calculateProgress st g) (Fin 100)"
  proof (cases st)
    case None
    then show ?thesis by (simp add: calculateProgress_def)
  next
    case (Some s')
    with pos show ?thesis by (simp add: calculateProgress_finite)
  qed
  assume neg: "total_profit_loss s < 0"
  with pos show q: "total_profit_loss s / target_amount g * 100 < 0"
    by (simp add: divide_neg_pos mult_neg_pos)
  with fin show "calculateProgress (Some s) g = Fin (total_profit_loss s / target_amount g * 100)"
    by (simp add: min_def)
qed

theorem calculateProgress_clamped_above_only_witness:
  "0 < target_amount (sample_goal 1000 (Some 864000000) False)
   \<and> total_profit_loss (sample_stats 9 (- 250) (- 60) (- 50)) < 0
   \<and> calculateProgress (Some (sample_stats 9 (- 250) (- 60) (- 50)))
        (sample_goal 1000 (Some 864000000) False) = Fin (- 25)"
proof -
  have pos: "0 < target_amount (sample_goal 1000 (Some 864000000) False)"
    by (simp add: sample_goal_def)
  have neg: "total_profit_loss (sample_stats 9 (- 250) (- 60) (- 50)) < 0"
    by (simp add: sample_stats_def)
  from calculateProgress_clamped_above_only [OF pos, of "sample_stats 9 (- 250) (- 60) (- 50)",
      THEN conjunct2, THEN conjunct2, THEN mp, OF neg, THEN conjunct1]
  have "calculateProgress (Some (sample_stats 9 (- 250) (- 60) (- 50)))
        (sample_goal 1000 (Some 864000000) False) = Fin (- 25)"
    by (simp add: sample_goal_def sample_stats_def)
  with pos neg show ?thesis by (intro conjI)
qed

text \<open>
  Claim C10. For every goal, the progress is 0 while the statistics are absent; a goal
  with a positive \<open>target_amount\<close> and statistics whose \<open>total_profit_loss\<close> is 0 has the
  same progress, so the progress value does not tell the two cases apart.
\<close>

theorem calculateProgress_unloaded:
  "calculateProgress None g = Fin 0
   \<and> (0 < target_amount g \<and> total_profit_loss s = 0 \<longrightarrow>
        calculateProgress (Some s) g = calculateProgress None g)"
  by (simp add: calculateProgress_def)

theorem calculateProgress_unloaded_witness:
  "calculateProgress None (sample_goal 1000 (Some 864000000) False) = Fin 0
   \<and> calculateProgress (Some (sample_stats 0 0 0 0)) (sample_goal 1000 (Some 864000000) False)
      = Fin 0"
proof -
  have hyp: "0 < target_amount (sample_goal 1000 (Some 864000000) False)
      \<and> total_profit_loss (sample_stats 0 0 0 0) = 0"
    by (simp add: sample_goal_def sample_stats_def)
  note inst = calculateProgress_unloaded [of "sample_goal 1000 (Some 864000000) False"
      "sample_stats 0 0 0 0"]
  from inst [THEN conjunct2, THEN mp, OF hyp] inst [THEN conjunct1]
  show ?thesis by simp
qed

end
